theory Spec2Isabelle
  imports Main "HOL-Library.Word" "HOL-Library.Stream"
begin

unbundle bit_operations_syntax

section \<open>Data model\<close>

subsection \<open>Type descriptors of package reflect\<close>

text \<open>\<^verbatim>\<open>reflect.Kind\<close>.\<close>

datatype kind =
    Invalid | Bool | Int | Int8 | Int16 | Int32 | Int64
  | Uint | Uint8 | Uint16 | Uint32 | Uint64 | Uintptr
  | Float32 | Float64 | Complex64 | Complex128
  | Array | Chan | Func | Interface | Map | Ptr | Slice | String | Struct | UnsafePointer

text \<open>
  \<^verbatim>\<open>reflect.Type\<close>: a type descriptor, given by what package reflect reports of it:
  its kind, its name, and for a function type its parameter and result types (the two
  lists are read for types of kind \<open>Func\<close> only).
\<close>

datatype rtype = RType (Kind: kind) (TypeName: string) (params: "rtype list") (returns: "rtype list")

subsection \<open>Panics\<close>

text \<open>
  A Go function either returns or panics. Every panic the source can raise is a value of
  \<open>panic\<close>: the five explicit \<^verbatim>\<open>panic(fmt.Sprintf(...))\<close> calls of \<^verbatim>\<open>SuchThat\<close> and
  \<^verbatim>\<open>Map\<close> (the constructor carries what the message prints), and the run-time panics
  of the language and of package reflect (nil pointer dereference, index out of range,
  failed type assertion, misuse of a \<^verbatim>\<open>reflect.Value\<close>).
\<close>

datatype combinator = InSuchThat | InMap

datatype panic =
    NotAFunc combinator kind
  | NotOneParam combinator nat
  | ParamNotAssignable combinator rtype rtype
  | NotOneReturn combinator nat
  | ReturnNotBool combinator kind
  | NilDereference
  | IndexOutOfRange
  | TypeAssertion
  | ReflectPanic

subsection \<open>Values\<close>

text \<open>
  A Go \<^verbatim>\<open>interface{}\<close> value: \<open>Nil\<close>, a boolean, a \<^verbatim>\<open>[]interface{}\<close> (what
  \<^verbatim>\<open>CombineGens\<close> builds), or any other value, of the type parameter \<open>'a\<close>.
\<close>

datatype 'a val = Nil | BoolV bool | Atom 'a | Values "'a val list"

subsection \<open>The objects of the program and the store that holds them\<close>

type_synonym ref = nat

text \<open>
  \<^verbatim>\<open>*rand.Rand\<close> is not part of the repository. A generator of package math/rand is
  represented by the sequence of values its \<^verbatim>\<open>Int63\<close> is going to return, each a
  non-negative 63-bit integer.
\<close>

type_synonym rand = "63 word stream"

record GenParameters =
  Size :: int
  MaxShrinkCount :: int
  Rng :: ref

type_synonym 'a Shrinker = "'a val \<Rightarrow> 'a val list"

record 'a GenResult =
  Labels :: "string list"
  Shrinker :: "'a Shrinker option"
  ResultType :: "rtype option"
  result :: "'a val"
  Sieve :: "('a val \<Rightarrow> panic + bool) option"

text \<open>
  The store: the allocated \<^verbatim>\<open>GenParameters\<close>, \<^verbatim>\<open>rand.Rand\<close> and \<^verbatim>\<open>GenResult\<close>
  objects, each addressed by its index (a pointer is an index; an index that is out of
  range stands for the nil pointer), and \<open>seeded\<close>, the generators that successive
  evaluations of \<^verbatim>\<open>rand.New(rand.NewSource(time.Now().UnixNano()))\<close> are going to return.
  The record is extensible: whatever else a base generator reads or writes lives in
  the extension, which no function of the source touches.
\<close>

record 'a world =
  parameters :: "GenParameters list"
  rands :: "rand list"
  results :: "'a GenResult list"
  seeded :: "rand stream"

text \<open>A computation in the store: it panics or returns, and leaves a store behind.\<close>

type_synonym ('x, 'a, 'z) prog = "('a, 'z) world_scheme \<Rightarrow> (panic + 'x) \<times> ('a, 'z) world_scheme"

section \<open>gen\_parameters.go\<close>

text \<open>\<^verbatim>\<open>p.Rng.Int63()\<close> on the generator at address \<open>r\<close>; the result is an \<^verbatim>\<open>int64\<close>.\<close>

definition Int63 :: "ref \<Rightarrow> (64 word, 'a, 'z) prog" where
  "Int63 r w =
     (if r < length (rands w)
      then (Inr (ucast (shd (rands w ! r))), w\<lparr>rands := (rands w)[r := stl (rands w ! r)]\<rparr>)
      else (Inl NilDereference, w))"

definition NextBool :: "ref \<Rightarrow> (bool, 'a, 'z) prog" where
  "NextBool p w =
     (if p < length (parameters w)
      then (case Int63 (Rng (parameters w ! p)) w of
              (Inl e, w') \<Rightarrow> (Inl e, w')
            | (Inr v, w') \<Rightarrow> (Inr (v AND 1 = 0), w'))
      else (Inl NilDereference, w))"

definition NextInt64 :: "ref \<Rightarrow> (64 word, 'a, 'z) prog" where
  "NextInt64 p w =
     (if p < length (parameters w)
      then (case Int63 (Rng (parameters w ! p)) w of
              (Inl e, w') \<Rightarrow> (Inl e, w')
            | (Inr v, w') \<Rightarrow>
                (case NextBool p w' of
                   (Inl e, w'') \<Rightarrow> (Inl e, w'')
                 | (Inr b, w'') \<Rightarrow> if b then (Inr (- v), w'') else (Inr v, w'')))
      else (Inl NilDereference, w))"

definition DefaultGenParameters :: "(ref, 'a, 'z) prog" where
  "DefaultGenParameters w =
     (Inr (length (parameters w)),
      w\<lparr>parameters := parameters w @ [\<lparr>Size = 100, MaxShrinkCount = 1000, Rng = length (rands w)\<rparr>],
        rands := rands w @ [shd (seeded w)],
        seeded := stl (seeded w)\<rparr>)"

section \<open>Sequencing\<close>

text \<open>Statement after statement: a panic ends the computation, with the store as it is.\<close>

definition bindP :: "('x, 'a, 'z) prog \<Rightarrow> ('x \<Rightarrow> ('y, 'a, 'z) prog) \<Rightarrow> ('y, 'a, 'z) prog" where
  "bindP m k w = (case m w of (Inl e, w') \<Rightarrow> (Inl e, w') | (Inr x, w') \<Rightarrow> k x w')"

text \<open>A step that does not touch the store: it returns a value or panics.\<close>

definition lift :: "panic + 'x \<Rightarrow> ('x, 'a, 'z) prog" where
  "lift r w = (r, w)"

text \<open>Reading the object behind a \<^verbatim>\<open>*GenResult\<close>.\<close>

definition load :: "ref \<Rightarrow> ('a, 'z) world_scheme \<Rightarrow> panic + 'a GenResult" where
  "load r w = (if r < length (results w) then Inr (results w ! r) else Inl NilDereference)"

definition get :: "ref \<Rightarrow> ('a GenResult, 'a, 'z) prog" where
  "get r w = (load r w, w)"

text \<open>An assignment to fields of the object behind a \<^verbatim>\<open>*GenResult\<close>.\<close>

definition modify :: "ref \<Rightarrow> ('a GenResult \<Rightarrow> 'a GenResult) \<Rightarrow> (unit, 'a, 'z) prog" where
  "modify r upd w =
     (if r < length (results w)
      then (Inr (), w\<lparr>results := (results w)[r := upd (results w ! r)]\<rparr>)
      else (Inl NilDereference, w))"

text \<open>\<^verbatim>\<open>&GenResult{...}\<close>: a new object, at an address no object had before.\<close>

definition new :: "'a GenResult \<Rightarrow> (ref, 'a, 'z) prog" where
  "new res w = (Inr (length (results w)), w\<lparr>results := results w @ [res]\<rparr>)"

section \<open>What gen.go uses of gen\_result.go, shrink.go and package reflect\<close>

text \<open>
  Modelled from the spec: \<^verbatim>\<open>GenResult.Retrieve\<close> (gen\_result.go is not among the
  sources). The spec: the value is optional, "absent signals generation failure"; the
  sieve is optional, "absence means always accepted"; "rejected values are treated as
  failed generation". The Go signature is \<^verbatim>\<open>(interface{}, bool)\<close>; a sieve that panics
  makes the call panic.
\<close>

definition Retrieve :: "'a GenResult \<Rightarrow> panic + ('a val \<times> bool)" where
  "Retrieve r =
     (if result r = Nil then Inr (Nil, False)
      else case Sieve r of
             None \<Rightarrow> Inr (result r, True)
           | Some sieve \<Rightarrow>
               (case sieve (result r) of
                  Inl e \<Rightarrow> Inl e
                | Inr ok \<Rightarrow> if ok then Inr (result r, True) else Inr (Nil, False)))"

text \<open>
  Modelled from the spec: \<^verbatim>\<open>GenResult.RetrieveAsValue\<close>, the same retrieval with the
  value wrapped as a \<^verbatim>\<open>reflect.Value\<close> (the wrapping is not modelled).
\<close>

definition RetrieveAsValue :: "'a GenResult \<Rightarrow> panic + ('a val \<times> bool)" where
  "RetrieveAsValue r = Retrieve r"

text \<open>
  Modelled from the spec: \<^verbatim>\<open>NoShrinker\<close> (shrink.go is not among the sources), the
  "canonical no-op shrinker: yields an empty sequence for any input". A shrinker is
  modelled as the spec describes it, a function from a value to the finite sequence of
  its candidates.
\<close>

definition NoShrinker :: "'a Shrinker" where
  "NoShrinker v = []"

text \<open>
  Modelled from the spec: \<^verbatim>\<open>CombineShrinker\<close> (shrink.go is not among the sources).
  The spec: for every position that has a shrinker, the aggregates that keep all other
  positions and substitute each candidate of that position's shrinker; position 0's
  candidates first, then position 1's, and so on. A nil shrinker is \<open>None\<close>.
\<close>

definition CombineShrinker :: "'a Shrinker option list \<Rightarrow> 'a Shrinker" where
  "CombineShrinker shrinkers v =
     (case v of
        Values vs \<Rightarrow>
          concat (map (\<lambda>i. case shrinkers ! i of
                              None \<Rightarrow> []
                            | Some s \<Rightarrow> map (\<lambda>c. Values (vs[i := c])) (s (vs ! i)))
                      [0..<min (length shrinkers) (length vs)])
      | _ \<Rightarrow> [])"

text \<open>
  \<^verbatim>\<open>reflect.ValueOf(f)\<close> for a non-nil \<open>f\<close>: the dynamic type of \<open>f\<close>, and what
  \<^verbatim>\<open>Call\<close> does with a list of arguments (it panics, or returns the list of results).
  The functions the user passes in are taken to have no effect on the store.
\<close>

record 'a Value =
  Type :: rtype
  Call :: "'a val list \<Rightarrow> panic + 'a val list"

text \<open>
  \<^verbatim>\<open>NumIn\<close>, \<^verbatim>\<open>In\<close>, \<^verbatim>\<open>NumOut\<close> and \<^verbatim>\<open>Out\<close> of \<^verbatim>\<open>reflect.Type\<close> panic on a type
  that is not a function type, and on an index that is out of range.
\<close>

definition NumIn :: "rtype \<Rightarrow> panic + nat" where
  "NumIn t = (if Kind t = Func then Inr (length (params t)) else Inl ReflectPanic)"

definition NumOut :: "rtype \<Rightarrow> panic + nat" where
  "NumOut t = (if Kind t = Func then Inr (length (returns t)) else Inl ReflectPanic)"

definition In :: "rtype \<Rightarrow> nat \<Rightarrow> panic + rtype" where
  "In t i = (if Kind t = Func \<and> i < length (params t) then Inr (params t ! i) else Inl ReflectPanic)"

definition Out :: "rtype \<Rightarrow> nat \<Rightarrow> panic + rtype" where
  "Out t i = (if Kind t = Func \<and> i < length (returns t) then Inr (returns t ! i) else Inl ReflectPanic)"

text \<open>\<^verbatim>\<open>xs[0]\<close> on the results of a call.\<close>

definition first :: "'x list \<Rightarrow> panic + 'x" where
  "first xs = (case xs of [] \<Rightarrow> Inl IndexOutOfRange | x # _ \<Rightarrow> Inr x)"

text \<open>\<^verbatim>\<open>reflect.Value.Bool\<close>: panics unless the value is a boolean.\<close>

definition BoolOf :: "'a val \<Rightarrow> panic + bool" where
  "BoolOf v = (case v of BoolV b \<Rightarrow> Inr b | _ \<Rightarrow> Inl ReflectPanic)"

text \<open>\<^verbatim>\<open>reflect.TypeOf(values)\<close> for \<^verbatim>\<open>values []interface{}\<close>.\<close>

definition values_type :: rtype where
  "values_type = RType Slice ''[]interface {}'' [] []"

section \<open>gen.go\<close>

text \<open>
  \<^verbatim>\<open>type Gen func(*GenParameters) *GenResult\<close>: a generator takes the address of a
  parameters object and returns the address of a result object; it runs in the store
  and may panic.
\<close>

type_synonym ('a, 'z) Gen = "ref \<Rightarrow> (ref, 'a, 'z) prog"

definition WithLabel :: "string \<Rightarrow> ('a, 'z) Gen \<Rightarrow> ('a, 'z) Gen" where
  "WithLabel label g genParams =
     bindP (g genParams) (\<lambda>result.
     bindP (modify result (\<lambda>res. res\<lparr>Labels := Labels res @ [label]\<rparr>)) (\<lambda>_.
     lift (Inr result)))"

text \<open>The closure \<^verbatim>\<open>sieve\<close> of \<^verbatim>\<open>SuchThat\<close>: call \<open>f\<close>, take result 0, read it as a bool.\<close>

definition sieve_of :: "'a Value \<Rightarrow> 'a val \<Rightarrow> panic + bool" where
  "sieve_of checkVal v =
     (case Call checkVal [v] of
        Inl e \<Rightarrow> Inl e
      | Inr outs \<Rightarrow> (case first outs of Inl e \<Rightarrow> Inl e | Inr b \<Rightarrow> BoolOf b))"

text \<open>\<^verbatim>\<open>prevSieve(value) && sieve(value)\<close>: the right operand runs only if the left is true.\<close>

definition both :: "('a val \<Rightarrow> panic + bool) \<Rightarrow> ('a val \<Rightarrow> panic + bool) \<Rightarrow> 'a val \<Rightarrow> panic + bool" where
  "both prevSieve sieve value =
     (case prevSieve value of
        Inl e \<Rightarrow> Inl e
      | Inr ok \<Rightarrow> if ok then sieve value else Inr False)"

text \<open>The generator that \<^verbatim>\<open>SuchThat\<close> returns.\<close>

definition SuchThat_gen :: "('a val \<Rightarrow> panic + bool) \<Rightarrow> ('a, 'z) Gen \<Rightarrow> ('a, 'z) Gen" where
  "SuchThat_gen sieve g genParams =
     bindP (g genParams) (\<lambda>result.
     bindP (modify result (\<lambda>res.
              case Sieve res of
                None \<Rightarrow> res\<lparr>Sieve := Some sieve\<rparr>
              | Some prevSieve \<Rightarrow> res\<lparr>Sieve := Some (both prevSieve sieve)\<rparr>)) (\<lambda>_.
     lift (Inr result)))"

text \<open>
  \<^verbatim>\<open>g(DefaultGenParameters()).ResultType\<close>: the probe of \<^verbatim>\<open>SuchThat\<close> and \<^verbatim>\<open>Map\<close>.
  A nil \<^verbatim>\<open>reflect.Type\<close> makes the call of \<^verbatim>\<open>AssignableTo\<close> on it panic.
\<close>

definition probe :: "('a, 'z) Gen \<Rightarrow> (rtype, 'a, 'z) prog" where
  "probe g =
     bindP DefaultGenParameters (\<lambda>defaults.
     bindP (g defaults) (\<lambda>result.
     bindP (get result) (\<lambda>res.
     lift (case ResultType res of None \<Rightarrow> Inl NilDereference | Some t \<Rightarrow> Inr t))))"

text \<open>
  \<^verbatim>\<open>SuchThat\<close>, with the checks in the order of the source. \<open>f\<close> is the argument
  (\<open>None\<close> for a nil interface, on which \<^verbatim>\<open>checkVal.Type()\<close> panics), and
  \<open>AssignableTo\<close> is the assignability relation of package reflect.
\<close>

definition SuchThat ::
  "(rtype \<Rightarrow> rtype \<Rightarrow> bool) \<Rightarrow> 'a Value option \<Rightarrow> ('a, 'z) Gen \<Rightarrow> (('a, 'z) Gen, 'a, 'z) prog" where
  "SuchThat AssignableTo f g =
     (case f of
        None \<Rightarrow> lift (Inl ReflectPanic)
      | Some checkVal \<Rightarrow>
          if Kind (Type checkVal) \<noteq> Func
          then lift (Inl (NotAFunc InSuchThat (Kind (Type checkVal))))
          else
            bindP (lift (NumIn (Type checkVal))) (\<lambda>numIn.
            bindP (if numIn \<noteq> 1
                   then lift (Inl (NotOneParam InSuchThat numIn))
                   else
                     bindP (probe g) (\<lambda>genResultType.
                     bindP (lift (In (Type checkVal) 0)) (\<lambda>in0.
                     if \<not> AssignableTo genResultType in0
                     then lift (Inl (ParamNotAssignable InSuchThat genResultType in0))
                     else lift (Inr ())))) (\<lambda>_.
            bindP (lift (NumOut (Type checkVal))) (\<lambda>numOut.
            if numOut \<noteq> 1
            then lift (Inl (NotOneReturn InSuchThat numOut))
            else
              bindP (lift (Out (Type checkVal) 0)) (\<lambda>out0.
              if Kind out0 \<noteq> Bool
              then lift (Inl (ReturnNotBool InSuchThat (Kind out0)))
              else lift (Inr (SuchThat_gen (sieve_of checkVal) g)))))))"

definition WithShrinker :: "'a Shrinker option \<Rightarrow> ('a, 'z) Gen \<Rightarrow> ('a, 'z) Gen" where
  "WithShrinker shrinker g genParams =
     bindP (g genParams) (\<lambda>result.
     bindP (modify result (\<lambda>res.
              if shrinker = None
              then res\<lparr>Shrinker := Some NoShrinker\<rparr>
              else res\<lparr>Shrinker := shrinker\<rparr>)) (\<lambda>_.
     lift (Inr result)))"

text \<open>The generator that \<^verbatim>\<open>Map\<close> returns.\<close>

definition Map_gen :: "'a Value \<Rightarrow> ('a, 'z) Gen \<Rightarrow> ('a, 'z) Gen" where
  "Map_gen mapperVal g genParams =
     bindP (g genParams) (\<lambda>result.
     bindP (get result) (\<lambda>res.
     bindP (lift (RetrieveAsValue res)) (\<lambda>(value, ok).
     if ok
     then
       bindP (lift (Call mapperVal [value])) (\<lambda>outs.
       bindP (lift (first outs)) (\<lambda>mapped.
       bindP (lift (Out (Type mapperVal) 0)) (\<lambda>out0.
       new \<lparr>Labels = Labels res, Shrinker = Some NoShrinker, ResultType = Some out0,
            result = mapped, Sieve = None\<rparr>)))
     else
       bindP (lift (Out (Type mapperVal) 0)) (\<lambda>out0.
       new \<lparr>Labels = Labels res, Shrinker = Some NoShrinker, ResultType = Some out0,
            result = Nil, Sieve = None\<rparr>))))"

definition Map ::
  "(rtype \<Rightarrow> rtype \<Rightarrow> bool) \<Rightarrow> 'a Value option \<Rightarrow> ('a, 'z) Gen \<Rightarrow> (('a, 'z) Gen, 'a, 'z) prog" where
  "Map AssignableTo f g =
     (case f of
        None \<Rightarrow> lift (Inl ReflectPanic)
      | Some mapperVal \<Rightarrow>
          if Kind (Type mapperVal) \<noteq> Func
          then lift (Inl (NotAFunc InMap (Kind (Type mapperVal))))
          else
            bindP (lift (NumIn (Type mapperVal))) (\<lambda>numIn.
            bindP (if numIn \<noteq> 1
                   then lift (Inl (NotOneParam InMap numIn))
                   else
                     bindP (probe g) (\<lambda>genResultType.
                     bindP (lift (In (Type mapperVal) 0)) (\<lambda>in0.
                     if \<not> AssignableTo genResultType in0
                     then lift (Inl (ParamNotAssignable InMap genResultType in0))
                     else lift (Inr ())))) (\<lambda>_.
            bindP (lift (NumOut (Type mapperVal))) (\<lambda>numOut.
            if numOut \<noteq> 1
            then lift (Inl (NotOneReturn InMap numOut))
            else lift (Inr (Map_gen mapperVal g))))))"

text \<open>
  \<^verbatim>\<open>FlatMap\<close>. The continuation \<open>f\<close> is given with the call of the generator it
  returns, \<^verbatim>\<open>f(value)(genParams)\<close>, as one computation: whatever building the generator
  does to the store, or a panic of it, is part of \<open>f value genParams\<close>. \<open>resultType\<close>
  is \<open>None\<close> for a nil \<^verbatim>\<open>reflect.Type\<close>.
\<close>

definition FlatMap ::
  "('a val \<Rightarrow> ('a, 'z) Gen) \<Rightarrow> rtype option \<Rightarrow> ('a, 'z) Gen \<Rightarrow> ('a, 'z) Gen" where
  "FlatMap f resultType g genParams =
     bindP (g genParams) (\<lambda>result.
     bindP (get result) (\<lambda>res.
     bindP (lift (Retrieve res)) (\<lambda>(value, ok).
     if ok
     then f value genParams
     else new \<lparr>Labels = Labels res, Shrinker = Some NoShrinker, ResultType = resultType,
               result = Nil, Sieve = None\<rparr>)))"

text \<open>
  The sieve of a combined result: \<^verbatim>\<open>v.([]interface{})\<close> panics on anything but a
  \<^verbatim>\<open>[]interface{}\<close>, and \<^verbatim>\<open>sieves[i]\<close> panics when \<open>v\<close> is longer than \<open>sieves\<close>.
\<close>

fun CombineGens_sieve_loop ::
  "nat \<Rightarrow> ('a val \<Rightarrow> panic + bool) option list \<Rightarrow> 'a val list \<Rightarrow> panic + bool" where
  "CombineGens_sieve_loop i sieves [] = Inr True"
| "CombineGens_sieve_loop i sieves (value # rest) =
     (if i < length sieves
      then (case sieves ! i of
              None \<Rightarrow> CombineGens_sieve_loop (Suc i) sieves rest
            | Some sieve \<Rightarrow>
                (case sieve value of
                   Inl e \<Rightarrow> Inl e
                 | Inr ok \<Rightarrow> if \<not> ok then Inr False
                             else CombineGens_sieve_loop (Suc i) sieves rest))
      else Inl IndexOutOfRange)"

definition CombineGens_sieve ::
  "('a val \<Rightarrow> panic + bool) option list \<Rightarrow> 'a val \<Rightarrow> panic + bool" where
  "CombineGens_sieve sieves v =
     (case v of Values values \<Rightarrow> CombineGens_sieve_loop 0 sieves values | _ \<Rightarrow> Inl TypeAssertion)"

text \<open>
  The loop of \<^verbatim>\<open>CombineGens\<close> from index \<open>i\<close> on, followed by the return statement
  after it. The three slices have \<^verbatim>\<open>len(gens)\<close> entries and \<open>i\<close> is a position of
  \<open>gens\<close>, so each \<^verbatim>\<open>xs[i] = ...\<close> is in range.
\<close>

fun CombineGens_loop ::
  "nat \<Rightarrow> ('a, 'z) Gen list \<Rightarrow> ref \<Rightarrow> string list \<Rightarrow> 'a val list \<Rightarrow> 'a Shrinker option list \<Rightarrow>
   ('a val \<Rightarrow> panic + bool) option list \<Rightarrow> (ref, 'a, 'z) prog" where
  "CombineGens_loop i [] genParams labels values shrinkers sieves =
     new \<lparr>Labels = labels, Shrinker = Some (CombineShrinker shrinkers),
          ResultType = Some values_type, result = Values values,
          Sieve = Some (CombineGens_sieve sieves)\<rparr>"
| "CombineGens_loop i (gen # gens) genParams labels values shrinkers sieves =
     bindP (gen genParams) (\<lambda>result.
     bindP (get result) (\<lambda>res.
     bindP (lift (Retrieve res)) (\<lambda>(value, ok).
     if \<not> ok
     then new \<lparr>Labels = Labels res, Shrinker = Some NoShrinker, ResultType = Some values_type,
               result = Nil, Sieve = None\<rparr>
     else CombineGens_loop (Suc i) gens genParams (labels @ Labels res) (values[i := value])
            (shrinkers[i := Shrinker res]) (sieves[i := Sieve res]))))"

definition CombineGens :: "('a, 'z) Gen list \<Rightarrow> ('a, 'z) Gen" where
  "CombineGens gens genParams =
     CombineGens_loop 0 gens genParams []
       (replicate (length gens) Nil) (replicate (length gens) None) (replicate (length gens) None)"

section \<open>Constants and sample inputs\<close>

text \<open>\<^verbatim>\<open>math.MinInt64\<close> and \<^verbatim>\<open>math.MaxInt64\<close>.\<close>

definition MinInt64 :: "64 word" where
  "MinInt64 = - (2 ^ 63)"

definition MaxInt64 :: "64 word" where
  "MaxInt64 = 2 ^ 63 - 1"

text \<open>
  A store with one parameters object, at address 0, whose generator is going to return
  \<open>v\<close>, then \<open>s\<close>, then zeros.
\<close>

definition source_with :: "63 word \<Rightarrow> 63 word \<Rightarrow> 'a world" where
  "source_with v s =
     \<lparr>parameters = [\<lparr>Size = 100, MaxShrinkCount = 1000, Rng = 0\<rparr>],
      rands = [v ## s ## sconst 0], results = [], seeded = sconst (sconst 0)\<rparr>"

text \<open>A store with no objects.\<close>

definition empty_world :: "'a world" where
  "empty_world = \<lparr>parameters = [], rands = [], results = [], seeded = sconst (sconst 0)\<rparr>"

definition int_type :: rtype where
  "int_type = RType kind.Int ''int'' [] []"

definition bool_type :: rtype where
  "bool_type = RType Bool ''bool'' [] []"

text \<open>
  A base generator in the manner of \<^verbatim>\<open>gen.Const\<close>: every call returns a new result
  with the value \<open>v\<close> (no value, when \<open>v\<close> is \<open>Nil\<close>) and the labels \<open>labels\<close>,
  of declared type \<^verbatim>\<open>int\<close>, with neither sieve nor shrinker.
\<close>

definition const_gen :: "'a val \<Rightarrow> string list \<Rightarrow> ('a, 'z) Gen" where
  "const_gen v labels genParams =
     new \<lparr>Labels = labels, Shrinker = None, ResultType = Some int_type,
          result = v, Sieve = None\<rparr>"

text \<open>Function arguments: \<^verbatim>\<open>func(n int) int { return 2 * n }\<close>, and so on.\<close>

definition double :: "nat Value" where
  "double =
     \<lparr>Type = RType Func ''func(int) int'' [int_type] [int_type],
      Call = (\<lambda>args. case args of [Atom n] \<Rightarrow> Inr [Atom (2 * n)] | _ \<Rightarrow> Inl ReflectPanic)\<rparr>"

definition positive :: "nat Value" where
  "positive =
     \<lparr>Type = RType Func ''func(int) bool'' [int_type] [bool_type],
      Call = (\<lambda>args. case args of [Atom n] \<Rightarrow> Inr [BoolV (0 < n)] | _ \<Rightarrow> Inl ReflectPanic)\<rparr>"

definition small :: "nat Value" where
  "small =
     \<lparr>Type = RType Func ''func(int) bool'' [int_type] [bool_type],
      Call = (\<lambda>args. case args of [Atom n] \<Rightarrow> Inr [BoolV (n < 10)] | _ \<Rightarrow> Inl ReflectPanic)\<rparr>"

definition never :: "nat Value" where
  "never =
     \<lparr>Type = RType Func ''func(int) bool'' [int_type] [bool_type],
      Call = (\<lambda>args. Inr [BoolV False])\<rparr>"

definition two_params :: "nat Value" where
  "two_params =
     \<lparr>Type = RType Func ''func(int, int) int'' [int_type, int_type] [int_type],
      Call = (\<lambda>args. Inr [Atom 0])\<rparr>"

section \<open>Notions of the specification\<close>

text \<open>
  A malformed function argument of \<^verbatim>\<open>SuchThat\<close> or \<^verbatim>\<open>Map\<close>, in the words of the
  specification: not a function, a parameter count other than one, a parameter type that
  the declared result type \<open>declared\<close> of the base generator is not assignable to, a
  return count other than one, or, for \<^verbatim>\<open>SuchThat\<close>, a return type that is not a
  boolean.
\<close>

definition malformed ::
  "combinator \<Rightarrow> (rtype \<Rightarrow> rtype \<Rightarrow> bool) \<Rightarrow> 'a Value option \<Rightarrow> rtype \<Rightarrow> bool" where
  "malformed c AssignableTo f declared =
     (case f of
        None \<Rightarrow> True
      | Some fv \<Rightarrow>
          Kind (Type fv) \<noteq> Func
          \<or> length (params (Type fv)) \<noteq> 1
          \<or> \<not> AssignableTo declared (params (Type fv) ! 0)
          \<or> length (returns (Type fv)) \<noteq> 1
          \<or> (c = InSuchThat \<and> Kind (returns (Type fv) ! 0) \<noteq> Bool))"

text \<open>A sieve accepts a value when it returns true on it; no sieve accepts every value.\<close>

definition accepts :: "('a val \<Rightarrow> panic + bool) option \<Rightarrow> 'a val \<Rightarrow> bool" where
  "accepts sieve v = (case sieve of None \<Rightarrow> True | Some s \<Rightarrow> s v = Inr True)"

text \<open>
  The generators of a list invoked one after the other, in list order, each with the same
  parameters object; the result object of each is read as soon as its call returns.
\<close>

fun invoke_all :: "('a, 'z) Gen list \<Rightarrow> ref \<Rightarrow> ('a GenResult list, 'a, 'z) prog" where
  "invoke_all [] genParams = lift (Inr [])"
| "invoke_all (gen # gens) genParams =
     bindP (gen genParams) (\<lambda>result.
     bindP (get result) (\<lambda>res.
     bindP (invoke_all gens genParams) (\<lambda>rest.
     lift (Inr (res # rest)))))"

section \<open>Properties of gen\_parameters.go\<close>

lemma unat_ucast63: "unat (ucast (v :: 63 word) :: 64 word) = unat v"
  by (simp add: unsigned_ucast_eq take_bit_nat_eq_self_iff)
     (use unsigned_less [of v, where 'a = nat] in simp)

lemma ucast63_lt: "unat (ucast (v :: 63 word) :: 64 word) < 2 ^ 63"
  using unsigned_less [of v, where 'a = nat] by (simp add: unat_ucast63)

lemma ucast63_ne_min: "(ucast (v :: 63 word) :: 64 word) \<noteq> 2 ^ 63"
proof
  assume "(ucast v :: 64 word) = 2 ^ 63"
  then have "unat (ucast v :: 64 word) = 2 ^ 63" by simp
  with ucast63_lt [of v] show False by simp
qed

lemma neg_ucast63_ne_min: "- (ucast (v :: 63 word) :: 64 word) \<noteq> - (2 ^ 63)"
  using ucast63_ne_min [of v] by simp

lemma ucast_back:
  "unat (n :: 64 word) < 2 ^ 63 \<Longrightarrow> (ucast (ucast n :: 63 word) :: 64 word) = n"
  apply (rule word_unat_eq_iff [THEN iffD2])
  apply (simp add: unat_ucast63)
  apply (simp add: unsigned_ucast_eq take_bit_nat_eq_self_iff)
  done

lemma neg_small:
  assumes "\<not> unat (n :: 64 word) < 2 ^ 63" and "n \<noteq> 2 ^ 63"
  shows "unat (- n) < 2 ^ 63"
proof -
  have "unat n \<noteq> 2 ^ 63"
  proof
    assume "unat n = 2 ^ 63"
    then have "unat n = unat (2 ^ 63 :: 64 word)" by simp
    then have "n = 2 ^ 63" by (simp only: word_unat_eq_iff)
    with assms(2) show False by simp
  qed
  with assms(1) have big: "2 ^ 63 < unat n" by simp
  have "unat (0 - n) = (if unat n \<le> unat (0 :: 64 word) then unat (0 :: 64 word) - unat n
      else unat (0 :: 64 word) + 2 ^ size (0 :: 64 word) - unat n)"
    by (rule unat_sub_if_size)
  with big have "unat (- n) = 2 ^ 64 - unat n" by (simp add: word_size)
  with big show ?thesis by simp
qed

text \<open>The magnitude is drawn first, then the sign, which \<^verbatim>\<open>NextBool\<close> decides.\<close>

lemma NextInt64_draws:
  assumes "Int63 (Rng (parameters w ! p)) w = (Inr v, w1)" and "NextBool p w1 = (Inr b, w2)"
  shows "NextInt64 p w = (Inr (if b then - v else v), w2)"
proof -
  have "parameters w1 = parameters w"
    using assms(1) by (auto simp: Int63_def split: if_splits)
  moreover have "p < length (parameters w1)"
    using assms(2) by (auto simp: NextBool_def split: if_splits)
  ultimately show ?thesis using assms by (simp add: NextInt64_def)
qed

lemma NextInt64_values:
  assumes "fst (NextInt64 p w) = Inr n"
  shows "\<exists>v :: 63 word. n = ucast v \<or> n = - ucast v"
  using assms
  by (auto simp: NextInt64_def NextBool_def Int63_def split: if_splits prod.splits sum.splits)

lemma NextInt64_never_min: "fst (NextInt64 p w) \<noteq> Inr MinInt64"
proof
  assume "fst (NextInt64 p w) = Inr MinInt64"
  then obtain v :: "63 word" where "MinInt64 = ucast v \<or> MinInt64 = - ucast v"
    using NextInt64_values by blast
  then show False
    using ucast63_ne_min [of v] neg_ucast63_ne_min [of v] by (auto simp: MinInt64_def)
qed

lemma NextInt64_source_with:
  "fst (NextInt64 0 (source_with v s)) =
     Inr (if (ucast s :: 64 word) AND 1 = 0 then - ucast v else ucast v)"
  by (simp add: NextInt64_def NextBool_def Int63_def source_with_def)

lemma NextInt64_reaches:
  assumes "n \<noteq> MinInt64"
  shows "\<exists>v s. fst (NextInt64 0 (source_with v s :: 'a world)) = Inr n"
proof (cases "unat n < 2 ^ 63")
  case True
  have "fst (NextInt64 0 (source_with (ucast n) 1 :: 'a world)) = Inr n"
    by (simp add: NextInt64_source_with ucast_back [OF True])
  then show ?thesis by blast
next
  case False
  have "- (2 ^ 63 :: 64 word) = 2 ^ 63" by simp
  with assms have "n \<noteq> 2 ^ 63" unfolding MinInt64_def by metis
  then have "unat (- n) < 2 ^ 63" using False by (rule neg_small [rotated])
  then have "(ucast (ucast (- n) :: 63 word) :: 64 word) = - n" by (rule ucast_back)
  then have "fst (NextInt64 0 (source_with (ucast (- n)) 0 :: 'a world)) = Inr n"
    by (simp add: NextInt64_source_with)
  then show ?thesis by blast
qed

text \<open>
  C3, as stated, fails at \<^verbatim>\<open>math.MinInt64\<close>: the magnitude is a non-negative 63-bit
  integer, so no state of the source makes \<^verbatim>\<open>NextInt64\<close> return \<open>- 2 ^ 63\<close>.
\<close>

theorem NextInt64_MinInt64_counterexample:
  "\<not> (\<exists>p (w :: unit world). fst (NextInt64 p w) = Inr MinInt64)"
  using NextInt64_never_min by blast

text \<open>
  C3, amended: \<^verbatim>\<open>NextInt64\<close> draws a magnitude from the source and negates it when the
  following \<^verbatim>\<open>NextBool\<close> draw is true; the values it can return are exactly the
  \<^verbatim>\<open>int64\<close> values other than \<^verbatim>\<open>math.MinInt64\<close> (so \<^verbatim>\<open>math.MaxInt64\<close> and
  \<open>- math.MaxInt64\<close> are the two extremes).
\<close>

theorem NextInt64_range:
  "(Int63 (Rng (parameters w ! p)) w = (Inr v, w1) \<and> NextBool p w1 = (Inr b, w2)
      \<longrightarrow> NextInt64 p w = (Inr (if b then - v else v), w2))
   \<and> ((\<exists>q (u :: 'a world). fst (NextInt64 q u) = Inr n) \<longleftrightarrow> n \<noteq> MinInt64)"
proof (intro conjI impI iffI)
  assume "Int63 (Rng (parameters w ! p)) w = (Inr v, w1) \<and> NextBool p w1 = (Inr b, w2)"
  then show "NextInt64 p w = (Inr (if b then - v else v), w2)"
    using NextInt64_draws by blast
next
  assume "\<exists>q (u :: 'a world). fst (NextInt64 q u) = Inr n"
  then show "n \<noteq> MinInt64" using NextInt64_never_min by metis
next
  assume "n \<noteq> MinInt64"
  then show "\<exists>q (u :: 'a world). fst (NextInt64 q u) = Inr n"
    using NextInt64_reaches by blast
qed

theorem NextInt64_range_witness:
  "fst (NextInt64 0 (source_with 7 0 :: unit world)) = Inr (- 7)
   \<and> (\<exists>q (u :: unit world). fst (NextInt64 q u) = Inr MaxInt64)
   \<and> (\<exists>q (u :: unit world). fst (NextInt64 q u) = Inr (- MaxInt64))"
  using NextInt64_range [of "source_with 7 0 :: unit world" 0 7
      "snd (Int63 0 (source_with 7 0 :: unit world))" True
      "snd (NextBool 0 (snd (Int63 0 (source_with 7 0 :: unit world))))" MaxInt64,
      where 'a = unit]
    NextInt64_range [of "source_with 7 0 :: unit world" 0 7
      "snd (Int63 0 (source_with 7 0 :: unit world))" True
      "snd (NextBool 0 (snd (Int63 0 (source_with 7 0 :: unit world))))" "- MaxInt64",
      where 'a = unit]
  by (simp add: source_with_def Int63_def NextBool_def MaxInt64_def MinInt64_def)

text \<open>
  C9: when the source next yields the magnitude 5 and the \<^verbatim>\<open>NextBool\<close> draw that
  follows yields true, \<^verbatim>\<open>NextInt64\<close> returns -5; when that draw yields false, it
  returns 5.
\<close>

theorem NextInt64_five:
  assumes "Int63 (Rng (parameters w ! p)) w = (Inr 5, w1)" and "NextBool p w1 = (Inr b, w2)"
  shows "\<exists>n. NextInt64 p w = (Inr n, w2) \<and> sint n = (if b then - 5 else 5)"
  using NextInt64_draws [OF assms] by simp

theorem NextInt64_five_witness:
  "(\<exists>n. fst (NextInt64 0 (source_with 5 0 :: unit world)) = Inr n \<and> sint n = - 5)
   \<and> (\<exists>n. fst (NextInt64 0 (source_with 5 1 :: unit world)) = Inr n \<and> sint n = 5)"
  using NextInt64_five [of "source_with 5 0 :: unit world" 0
      "snd (Int63 0 (source_with 5 0 :: unit world))" True
      "snd (NextBool 0 (snd (Int63 0 (source_with 5 0 :: unit world))))"]
    NextInt64_five [of "source_with 5 1 :: unit world" 0
      "snd (Int63 0 (source_with 5 1 :: unit world))" False
      "snd (NextBool 0 (snd (Int63 0 (source_with 5 1 :: unit world))))"]
  by (fastforce simp: source_with_def Int63_def NextBool_def)

section \<open>Properties of gen.go\<close>

subsection \<open>Running a computation\<close>

lemma lift_apply [simp]: "lift r w = (r, w)"
  by (simp add: lift_def)

lemma bindP_Inr [simp]: "m w = (Inr x, w') \<Longrightarrow> bindP m k w = k x w'"
  by (simp add: bindP_def)

lemma bindP_Inl [simp]: "m w = (Inl e, w') \<Longrightarrow> bindP m k w = (Inl e, w')"
  by (simp add: bindP_def)

lemma get_Inr [simp]: "load r w = Inr res \<Longrightarrow> get r w = (Inr res, w)"
  by (simp add: get_def)

lemma load_new [simp]: "load (length (results w)) (w\<lparr>results := results w @ [res]\<rparr>) = Inr res"
  by (simp add: load_def)

lemma modify_Inr [simp]:
  "load r w = Inr res \<Longrightarrow> modify r upd w = (Inr (), w\<lparr>results := (results w)[r := upd res]\<rparr>)"
  by (auto simp: load_def modify_def split: if_splits)

lemmas sample_defs = empty_world_def const_gen_def int_type_def bool_type_def double_def
  positive_def small_def never_def two_params_def

lemmas run_defs = SuchThat_def Map_def probe_def DefaultGenParameters_def bindP_def get_def
  load_def new_def modify_def NumIn_def NumOut_def In_def Out_def SuchThat_gen_def Map_gen_def
  sieve_of_def first_def BoolOf_def both_def accepts_def Retrieve_def RetrieveAsValue_def

subsection \<open>The checks of \<^verbatim>\<open>SuchThat\<close> and \<^verbatim>\<open>Map\<close>\<close>

lemma SuchThat_malformed:
  assumes "fst (probe g w) = Inr t" and "malformed InSuchThat A f t"
  shows "\<exists>e. fst (SuchThat A f g w) = Inl e
           \<and> (snd (SuchThat A f g w) = w \<or> snd (SuchThat A f g w) = snd (probe g w))"
proof (cases f)
  case None
  then show ?thesis by (simp add: SuchThat_def)
next
  case (Some cv)
  obtain w1 where p: "probe g w = (Inr t, w1)"
    using assms(1) by (cases "probe g w") auto
  show ?thesis
    using Some assms(2) p
    by (auto simp: SuchThat_def malformed_def bindP_def NumIn_def NumOut_def In_def Out_def
        split: if_splits)
qed

lemma Map_malformed:
  assumes "fst (probe g w) = Inr t" and "malformed InMap A f t"
  shows "\<exists>e. fst (Map A f g w) = Inl e
           \<and> (snd (Map A f g w) = w \<or> snd (Map A f g w) = snd (probe g w))"
proof (cases f)
  case None
  then show ?thesis by (simp add: Map_def)
next
  case (Some cv)
  obtain w1 where p: "probe g w = (Inr t, w1)"
    using assms(1) by (cases "probe g w") auto
  show ?thesis
    using Some assms(2) p
    by (auto simp: Map_def malformed_def bindP_def NumIn_def NumOut_def In_def Out_def
        split: if_splits)
qed

lemma SuchThat_Inr:
  assumes "SuchThat A f g w = (Inr d, w')"
  shows "\<exists>cv t. f = Some cv \<and> d = SuchThat_gen (sieve_of cv) g \<and> probe g w = (Inr t, w')
           \<and> \<not> malformed InSuchThat A f t"
proof (cases f)
  case None
  with assms show ?thesis by (simp add: SuchThat_def)
next
  case (Some cv)
  show ?thesis
  proof (cases "probe g w")
    case (Pair a w1)
    then show ?thesis
      using Some assms
      by (cases a)
         (auto simp: SuchThat_def malformed_def bindP_def NumIn_def NumOut_def In_def Out_def
          split: if_splits)
  qed
qed

lemma Map_Inr:
  assumes "Map A f g w = (Inr d, w')"
  shows "\<exists>mv t. f = Some mv \<and> d = Map_gen mv g \<and> probe g w = (Inr t, w')
           \<and> \<not> malformed InMap A f t"
proof (cases f)
  case None
  with assms show ?thesis by (simp add: Map_def)
next
  case (Some cv)
  show ?thesis
  proof (cases "probe g w")
    case (Pair a w1)
    then show ?thesis
      using Some assms
      by (cases a)
         (auto simp: Map_def malformed_def bindP_def NumIn_def NumOut_def In_def Out_def
          split: if_splits)
  qed
qed

text \<open>
  C8: a malformed function argument of \<^verbatim>\<open>SuchThat\<close> or \<^verbatim>\<open>Map\<close> makes the
  construction panic, after no call or one call of the base generator with default
  parameters (the store is the one before the construction, or the one the probe left);
  a derived generator comes into being only for an argument that is not malformed, so
  none is there to fail at generation time because of such an argument.
\<close>

theorem malformed_argument_panics:
  assumes "fst (probe g w) = Inr declared"
  shows "(malformed InSuchThat A f declared \<longrightarrow>
            (\<exists>e. fst (SuchThat A f g w) = Inl e)
            \<and> (snd (SuchThat A f g w) = w \<or> snd (SuchThat A f g w) = snd (probe g w)))
       \<and> (malformed InMap A f declared \<longrightarrow>
            (\<exists>e. fst (Map A f g w) = Inl e)
            \<and> (snd (Map A f g w) = w \<or> snd (Map A f g w) = snd (probe g w)))
       \<and> (\<forall>d. fst (SuchThat A f g w) = Inr d \<longrightarrow>
            \<not> malformed InSuchThat A f declared \<and> snd (SuchThat A f g w) = snd (probe g w))
       \<and> (\<forall>d. fst (Map A f g w) = Inr d \<longrightarrow>
            \<not> malformed InMap A f declared \<and> snd (Map A f g w) = snd (probe g w))"
proof (intro conjI impI allI)
  assume "malformed InSuchThat A f declared"
  with assms show "\<exists>e. fst (SuchThat A f g w) = Inl e"
    and "snd (SuchThat A f g w) = w \<or> snd (SuchThat A f g w) = snd (probe g w)"
    using SuchThat_malformed by blast+
next
  assume "malformed InMap A f declared"
  with assms show "\<exists>e. fst (Map A f g w) = Inl e"
    and "snd (Map A f g w) = w \<or> snd (Map A f g w) = snd (probe g w)"
    using Map_malformed by blast+
next
  fix d
  assume "fst (SuchThat A f g w) = Inr d"
  then have "SuchThat A f g w = (Inr d, snd (SuchThat A f g w))"
    by (simp add: prod_eq_iff)
  from SuchThat_Inr [OF this] assms
  show "\<not> malformed InSuchThat A f declared" and "snd (SuchThat A f g w) = snd (probe g w)"
    by auto
next
  fix d
  assume "fst (Map A f g w) = Inr d"
  then have "Map A f g w = (Inr d, snd (Map A f g w))"
    by (simp add: prod_eq_iff)
  from Map_Inr [OF this] assms
  show "\<not> malformed InMap A f declared" and "snd (Map A f g w) = snd (probe g w)"
    by auto
qed

theorem malformed_argument_panics_witness:
  "fst (probe (const_gen (Atom 1) []) (empty_world :: nat world)) = Inr int_type
   \<and> malformed InSuchThat (=) (Some double) int_type
   \<and> fst (SuchThat (=) (Some double) (const_gen (Atom 1) []) (empty_world :: nat world))
       = Inl (ReturnNotBool InSuchThat kind.Int)
   \<and> snd (SuchThat (=) (Some double) (const_gen (Atom 1) []) (empty_world :: nat world))
       = snd (probe (const_gen (Atom 1) []) (empty_world :: nat world))
   \<and> malformed InMap (=) (Some two_params) int_type
   \<and> fst (Map (=) (Some two_params) (const_gen (Atom 1) []) (empty_world :: nat world))
       = Inl (NotOneParam InMap 2)
   \<and> snd (Map (=) (Some two_params) (const_gen (Atom 1) []) (empty_world :: nat world))
       = empty_world"
  using malformed_argument_panics [where g = "const_gen (Atom 1) []"
      and w = "empty_world :: nat world" and declared = int_type and A = "(=)"
      and f = "Some double"]
    malformed_argument_panics [where g = "const_gen (Atom 1) []"
      and w = "empty_world :: nat world" and declared = int_type and A = "(=)"
      and f = "Some two_params"]
  by (simp add: sample_defs run_defs malformed_def)

subsection \<open>The generators that the combinators return\<close>

lemma WithLabel_result:
  assumes "g genParams w = (Inr r, w1)" and "load r w1 = Inr res"
  shows "WithLabel label g genParams w =
           (Inr r, w1\<lparr>results := (results w1)[r := res\<lparr>Labels := Labels res @ [label]\<rparr>]\<rparr>)"
  using assms by (simp add: WithLabel_def)

lemma SuchThat_gen_result:
  assumes "g genParams w = (Inr r, w1)" and "load r w1 = Inr res"
  shows "SuchThat_gen sieve g genParams w =
           (Inr r, w1\<lparr>results := (results w1)[r := res\<lparr>Sieve :=
              Some (case Sieve res of None \<Rightarrow> sieve | Some prevSieve \<Rightarrow> both prevSieve sieve)\<rparr>]\<rparr>)"
  using assms by (simp add: SuchThat_gen_def split: option.splits)

lemma WithShrinker_result:
  assumes "g genParams w = (Inr r, w1)" and "load r w1 = Inr res"
  shows "WithShrinker shrinker g genParams w =
           (Inr r, w1\<lparr>results := (results w1)[r := res\<lparr>Shrinker :=
              Some (case shrinker of None \<Rightarrow> NoShrinker | Some s \<Rightarrow> s)\<rparr>]\<rparr>)"
  using assms by (auto simp: WithShrinker_def split: option.splits)

lemma Map_gen_result:
  assumes "g genParams w = (Inr r, w1)" and "load r w1 = Inr res"
    and "RetrieveAsValue res = Inr (x, ok)" and "Out (Type mapperVal) 0 = Inr out0"
  shows "ok \<Longrightarrow> Call mapperVal [x] = Inr (y # ys) \<Longrightarrow>
           Map_gen mapperVal g genParams w =
             (Inr (length (results w1)),
              w1\<lparr>results := results w1 @
                 [\<lparr>Labels = Labels res, Shrinker = Some NoShrinker, ResultType = Some out0,
                   result = y, Sieve = None\<rparr>]\<rparr>)"
    and "\<not> ok \<Longrightarrow>
           Map_gen mapperVal g genParams w =
             (Inr (length (results w1)),
              w1\<lparr>results := results w1 @
                 [\<lparr>Labels = Labels res, Shrinker = Some NoShrinker, ResultType = Some out0,
                   result = Nil, Sieve = None\<rparr>]\<rparr>)"
  using assms by (simp_all add: Map_gen_def new_def first_def)

lemma Map_gen_fresh:
  assumes "g genParams w = (Inr r, w1)" and "Map_gen mapperVal g genParams w = (Inr r', w')"
  shows "r' = length (results w1) \<and> (\<exists>res'. w' = w1\<lparr>results := results w1 @ [res']\<rparr>)"
  using assms
  by (auto simp: Map_gen_def bindP_def get_def new_def split: sum.splits prod.splits if_splits)

lemma both_True: "both a b v = Inr True \<longleftrightarrow> a v = Inr True \<and> b v = Inr True"
  by (auto simp: both_def split: sum.splits)

text \<open>
  C6: when the inner generation of \<^verbatim>\<open>g.Map(f)\<close> succeeds with value \<open>x\<close> and \<open>f\<close>
  returns \<open>y\<close> on \<open>x\<close>, the derived generator returns a new result with value \<open>y\<close>,
  declared type the return type of \<open>f\<close>, the inner labels, no sieve, and
  \<^verbatim>\<open>NoShrinker\<close> as its shrinker; when the inner generation fails, it returns a new
  result with no value, the inner labels and declared type the return type of \<open>f\<close>.
\<close>

theorem Map_result:
  assumes "Map A f g w0 = (Inr m, w0')"
    and "g genParams w = (Inr r, w1)" and "load r w1 = Inr res"
    and "RetrieveAsValue res = Inr (x, ok)"
  shows "\<exists>mapperVal out0. f = Some mapperVal \<and> returns (Type mapperVal) = [out0]
     \<and> (ok \<and> Call mapperVal [x] = Inr [y] \<longrightarrow>
          m genParams w =
            (Inr (length (results w1)),
             w1\<lparr>results := results w1 @
                [\<lparr>Labels = Labels res, Shrinker = Some NoShrinker, ResultType = Some out0,
                  result = y, Sieve = None\<rparr>]\<rparr>))
     \<and> (\<not> ok \<longrightarrow>
          m genParams w =
            (Inr (length (results w1)),
             w1\<lparr>results := results w1 @
                [\<lparr>Labels = Labels res, Shrinker = Some NoShrinker, ResultType = Some out0,
                  result = Nil, Sieve = None\<rparr>]\<rparr>))"
proof -
  from Map_Inr [OF assms(1)] obtain mv t where
    f: "f = Some mv" and m: "m = Map_gen mv g" and ok: "\<not> malformed InMap A f t"
    by blast
  from ok f have k: "Kind (Type mv) = Func" and n: "length (returns (Type mv)) = 1"
    by (simp_all add: malformed_def)
  from n obtain out0 where r: "returns (Type mv) = [out0]"
    by (cases "returns (Type mv)") auto
  with k have out: "Out (Type mv) 0 = Inr out0" by (simp add: Out_def)
  show ?thesis
    using f r m
      Map_gen_result(1) [where g = g and genParams = genParams and w = w,
        OF assms(2,3,4) out, of y "[]"]
      Map_gen_result(2) [where g = g and genParams = genParams and w = w,
        OF assms(2,3,4) out]
    by auto
qed

theorem Map_result_witness:
  "\<exists>m w0'. Map (=) (Some double) (const_gen (Atom 3) [''a'']) (empty_world :: nat world)
              = (Inr m, w0')
     \<and> m 0 w0' =
         (Inr 2, w0'\<lparr>results := results w0' @
            [\<lparr>Labels = [''a''], Shrinker = None, ResultType = Some int_type,
              result = Atom 3, Sieve = None\<rparr>,
             \<lparr>Labels = [''a''], Shrinker = Some NoShrinker, ResultType = Some int_type,
              result = Atom 6, Sieve = None\<rparr>]\<rparr>)"
proof -
  let ?g = "const_gen (Atom 3) [''a''] :: (nat, unit) Gen"
  let ?res = "\<lparr>Labels = [''a''], Shrinker = None, ResultType = Some int_type,
               result = Atom (3 :: nat), Sieve = None\<rparr>"
  obtain m w0' where c: "Map (=) (Some double) ?g empty_world = (Inr m, w0')"
    by (simp add: sample_defs run_defs)
  have n: "length (results w0') = 1"
    using c by (auto simp: sample_defs run_defs)
  have g: "?g 0 w0' = (Inr 1, w0'\<lparr>results := results w0' @ [?res]\<rparr>)"
    using n by (simp add: const_gen_def new_def)
  have l: "load 1 (w0'\<lparr>results := results w0' @ [?res]\<rparr>) = Inr ?res"
    using n load_new [of w0' ?res] by simp
  have v: "RetrieveAsValue ?res = Inr (Atom 3, True)"
    by (simp add: RetrieveAsValue_def Retrieve_def)
  from Map_result [OF c g l v, of "Atom 6"]
  have "m 0 w0' =
         (Inr 2, w0'\<lparr>results := results w0' @
            [?res,
             \<lparr>Labels = [''a''], Shrinker = Some NoShrinker, ResultType = Some int_type,
              result = Atom 6, Sieve = None\<rparr>]\<rparr>)"
    using n by (auto simp: double_def)
  with c show ?thesis by blast
qed

text \<open>
  C4, as stated, fails for a generator whose own result carries a sieve: with
  \<open>g = const.SuchThat(never)\<close>, the sieve of \<open>g.SuchThat(positive).SuchThat(small)\<close>
  rejects 5, although \<open>positive\<close> and \<open>small\<close> both hold of 5.
\<close>

theorem SuchThat_stacked_counterexample:
  "\<exists>g wa g1 wb g2 wc r w res.
     SuchThat (=) (Some never) (const_gen (Atom 5) []) (empty_world :: nat world) = (Inr g, wa)
     \<and> SuchThat (=) (Some positive) g wa = (Inr g1, wb)
     \<and> SuchThat (=) (Some small) g1 wb = (Inr g2, wc)
     \<and> g2 0 wc = (Inr r, w) \<and> load r w = Inr res
     \<and> \<not> accepts (Sieve res) (Atom 5)
     \<and> sieve_of positive (Atom 5) = Inr True \<and> sieve_of small (Atom 5) = Inr True"
  by (simp add: sample_defs run_defs)

text \<open>
  C4, amended: \<^verbatim>\<open>SuchThat\<close> conjoins its predicate with the sieve that the base result
  already has, if any. The sieve of \<open>g.SuchThat(p1)\<close> accepts \<open>v\<close> if and only if the
  sieve of the result of \<open>g\<close> accepts \<open>v\<close> and \<open>p1(v)\<close> holds, and the sieve of
  \<open>g.SuchThat(p1).SuchThat(p2)\<close> accepts \<open>v\<close> if and only if the sieve of the result
  of \<open>g\<close> accepts \<open>v\<close> and \<open>p1(v)\<close> and \<open>p2(v)\<close> both hold; when the result of
  \<open>g\<close> has no sieve, that is if and only if \<open>p1(v)\<close> and \<open>p2(v)\<close> both hold.
\<close>

theorem SuchThat_conjoins:
  assumes "SuchThat A f1 g wa = (Inr g1, wa')" and "SuchThat A f2 g1 wb = (Inr g2, wb')"
    and "g genParams w = (Inr r, w1)" and "load r w1 = Inr res"
  shows "\<exists>p1 p2 res1 res2. f1 = Some p1 \<and> f2 = Some p2
     \<and> g1 genParams w = (Inr r, w1\<lparr>results := (results w1)[r := res1]\<rparr>)
     \<and> (\<forall>v. accepts (Sieve res1) v \<longleftrightarrow> accepts (Sieve res) v \<and> sieve_of p1 v = Inr True)
     \<and> g2 genParams w = (Inr r, w1\<lparr>results := (results w1)[r := res2]\<rparr>)
     \<and> (\<forall>v. accepts (Sieve res2) v \<longleftrightarrow>
            accepts (Sieve res) v \<and> sieve_of p1 v = Inr True \<and> sieve_of p2 v = Inr True)
     \<and> (Sieve res = None \<longrightarrow>
          (\<forall>v. accepts (Sieve res2) v \<longleftrightarrow> sieve_of p1 v = Inr True \<and> sieve_of p2 v = Inr True))"
proof -
  from SuchThat_Inr [OF assms(1)] obtain p1 where
    f1: "f1 = Some p1" and g1: "g1 = SuchThat_gen (sieve_of p1) g" by blast
  from SuchThat_Inr [OF assms(2)] obtain p2 where
    f2: "f2 = Some p2" and g2: "g2 = SuchThat_gen (sieve_of p2) g1" by blast
  define s1 where "s1 = (case Sieve res of None \<Rightarrow> sieve_of p1
                         | Some prevSieve \<Rightarrow> both prevSieve (sieve_of p1))"
  define res1 where "res1 = res\<lparr>Sieve := Some s1\<rparr>"
  define res2 where "res2 = res1\<lparr>Sieve := Some (both s1 (sieve_of p2))\<rparr>"
  have r: "r < length (results w1)"
    using assms(4) by (simp add: load_def split: if_splits)
  have run1: "g1 genParams w = (Inr r, w1\<lparr>results := (results w1)[r := res1]\<rparr>)"
    unfolding g1 res1_def s1_def
    using SuchThat_gen_result [where g = g and genParams = genParams and w = w, OF assms(3,4)] .
  have l1: "load r (w1\<lparr>results := (results w1)[r := res1]\<rparr>) = Inr res1"
    using r by (simp add: load_def)
  have "g2 genParams w =
          (Inr r, w1\<lparr>results := (results w1)[r := res1]\<rparr>
             \<lparr>results := (results (w1\<lparr>results := (results w1)[r := res1]\<rparr>))[r := res1\<lparr>Sieve :=
                Some (case Sieve res1 of None \<Rightarrow> sieve_of p2
                      | Some prevSieve \<Rightarrow> both prevSieve (sieve_of p2))\<rparr>]\<rparr>)"
    unfolding g2
    using SuchThat_gen_result [where g = g1 and genParams = genParams and w = w, OF run1 l1] .
  then have run2: "g2 genParams w = (Inr r, w1\<lparr>results := (results w1)[r := res2]\<rparr>)"
    by (simp add: res2_def res1_def)
  have a1: "accepts (Sieve res1) v \<longleftrightarrow> accepts (Sieve res) v \<and> sieve_of p1 v = Inr True" for v
    by (simp add: res1_def s1_def accepts_def both_True split: option.splits)
  have a2: "accepts (Sieve res2) v \<longleftrightarrow>
      accepts (Sieve res) v \<and> sieve_of p1 v = Inr True \<and> sieve_of p2 v = Inr True" for v
    using a1 [of v] by (simp add: res2_def res1_def accepts_def both_True)
  have a3: "Sieve res = None \<longrightarrow>
      (\<forall>v. accepts (Sieve res2) v \<longleftrightarrow> sieve_of p1 v = Inr True \<and> sieve_of p2 v = Inr True)"
    using a2 by (simp add: accepts_def)
  have "f1 = Some p1 \<and> f2 = Some p2
     \<and> g1 genParams w = (Inr r, w1\<lparr>results := (results w1)[r := res1]\<rparr>)
     \<and> (\<forall>v. accepts (Sieve res1) v \<longleftrightarrow> accepts (Sieve res) v \<and> sieve_of p1 v = Inr True)
     \<and> g2 genParams w = (Inr r, w1\<lparr>results := (results w1)[r := res2]\<rparr>)
     \<and> (\<forall>v. accepts (Sieve res2) v \<longleftrightarrow>
            accepts (Sieve res) v \<and> sieve_of p1 v = Inr True \<and> sieve_of p2 v = Inr True)
     \<and> (Sieve res = None \<longrightarrow>
          (\<forall>v. accepts (Sieve res2) v \<longleftrightarrow> sieve_of p1 v = Inr True \<and> sieve_of p2 v = Inr True))"
    apply (intro conjI allI)
          apply (rule f1)
         apply (rule f2)
        apply (rule run1)
       apply (rule a1)
      apply (rule run2)
     apply (rule a2)
    apply (rule a3)
    done
  then show ?thesis by (intro exI)
qed

theorem SuchThat_conjoins_witness:
  "\<exists>g1 wa g2 wb r w res2.
     SuchThat (=) (Some positive) (const_gen (Atom 5) []) (empty_world :: nat world) = (Inr g1, wa)
     \<and> SuchThat (=) (Some small) g1 wa = (Inr g2, wb)
     \<and> g2 0 wb = (Inr r, w) \<and> load r w = Inr res2
     \<and> accepts (Sieve res2) (Atom 5) \<and> \<not> accepts (Sieve res2) (Atom 0)
     \<and> \<not> accepts (Sieve res2) (Atom 10)"
proof -
  let ?g = "const_gen (Atom 5) [] :: (nat, unit) Gen"
  let ?res = "\<lparr>Labels = [], Shrinker = None, ResultType = Some int_type,
               result = Atom (5 :: nat), Sieve = None\<rparr>"
  obtain g1 wa where c1: "SuchThat (=) (Some positive) ?g empty_world = (Inr g1, wa)"
    by (simp add: sample_defs run_defs)
  obtain g2 wb where c2: "SuchThat (=) (Some small) g1 wa = (Inr g2, wb)"
    using c1 by (auto simp: sample_defs run_defs)
  have g: "?g 0 wb = (Inr (length (results wb)), wb\<lparr>results := results wb @ [?res]\<rparr>)"
    by (simp add: const_gen_def new_def)
  from SuchThat_conjoins [OF c1 c2 g load_new]
  obtain res2 where
    run: "g2 0 wb = (Inr (length (results wb)),
        wb\<lparr>results := results wb @ [?res]\<rparr>
          \<lparr>results := (results (wb\<lparr>results := results wb @ [?res]\<rparr>))
             [length (results wb) := res2]\<rparr>)"
    and acc: "\<forall>v. accepts (Sieve res2) v \<longleftrightarrow>
        sieve_of positive v = Inr True \<and> sieve_of small v = Inr True"
    by auto
  have l: "load (length (results wb))
       (wb\<lparr>results := results wb @ [?res]\<rparr>
          \<lparr>results := (results (wb\<lparr>results := results wb @ [?res]\<rparr>))
             [length (results wb) := res2]\<rparr>) = Inr res2"
    by (simp add: load_def)
  have "accepts (Sieve res2) (Atom 5)" and "\<not> accepts (Sieve res2) (Atom 0)"
    and "\<not> accepts (Sieve res2) (Atom 10)"
    using acc by (simp_all add: sieve_of_def positive_def small_def first_def BoolOf_def)
  with c1 c2 run l show ?thesis by blast
qed

text \<open>
  C7: when the base generation of \<^verbatim>\<open>g.FlatMap(f, t)\<close> succeeds with value \<open>v\<close>, the
  derived generator returns what the generator \<open>f(v)\<close> returns for the same parameters
  object, as it is; when the base generation fails, it returns a new result with no
  value, declared type \<open>t\<close> and the labels of the base result.
\<close>

theorem FlatMap_returns:
  assumes "g genParams w = (Inr r, w1)" and "load r w1 = Inr res"
    and "Retrieve res = Inr (v, ok)"
  shows "(ok \<longrightarrow> FlatMap f t g genParams w = f v genParams w1)
     \<and> (\<not> ok \<longrightarrow>
          FlatMap f t g genParams w =
            (Inr (length (results w1)),
             w1\<lparr>results := results w1 @
                [\<lparr>Labels = Labels res, Shrinker = Some NoShrinker, ResultType = t,
                  result = Nil, Sieve = None\<rparr>]\<rparr>))"
  using assms by (simp add: FlatMap_def new_def)

theorem FlatMap_returns_witness:
  "FlatMap (\<lambda>v. const_gen v [''b'']) (Some int_type) (const_gen (Atom 1) [''a'']) 0
       (empty_world :: nat world)
     = const_gen (Atom 1) [''b''] 0
         (empty_world\<lparr>results := [\<lparr>Labels = [''a''], Shrinker = None,
            ResultType = Some int_type, result = Atom 1, Sieve = None\<rparr>]\<rparr>)
   \<and> FlatMap (\<lambda>v. const_gen v [''b'']) (Some int_type) (const_gen Nil [''a'']) 0
       (empty_world :: nat world)
     = (Inr 1, empty_world\<lparr>results :=
          [\<lparr>Labels = [''a''], Shrinker = None, ResultType = Some int_type,
             result = Nil, Sieve = None\<rparr>,
           \<lparr>Labels = [''a''], Shrinker = Some NoShrinker, ResultType = Some int_type,
             result = Nil, Sieve = None\<rparr>]\<rparr>)"
  using FlatMap_returns [where g = "const_gen (Atom 1) [''a'']" and genParams = 0
      and w = "empty_world :: nat world" and r = 0
      and ?w1.0 = "empty_world\<lparr>results := [\<lparr>Labels = [''a''], Shrinker = None,
            ResultType = Some int_type, result = Atom 1, Sieve = None\<rparr>]\<rparr>"
      and res = "\<lparr>Labels = [''a''], Shrinker = None,
            ResultType = Some int_type, result = Atom 1, Sieve = None\<rparr>"
      and v = "Atom 1" and ok = True and f = "\<lambda>v. const_gen v [''b'']"
      and t = "Some int_type"]
    FlatMap_returns [where g = "const_gen Nil [''a'']" and genParams = 0
      and w = "empty_world :: nat world" and r = 0
      and ?w1.0 = "empty_world\<lparr>results := [\<lparr>Labels = [''a''], Shrinker = None,
            ResultType = Some int_type, result = Nil, Sieve = None\<rparr>]\<rparr>"
      and res = "\<lparr>Labels = [''a''], Shrinker = None,
            ResultType = Some int_type, result = Nil, Sieve = None\<rparr>"
      and v = Nil and ok = False and f = "\<lambda>v. const_gen v [''b'']"
      and t = "Some int_type"]
  by (simp add: sample_defs run_defs)

subsection \<open>\<^verbatim>\<open>CombineGens\<close>\<close>

lemma invoke_all_Cons:
  assumes "invoke_all (g # gs) p w = (Inr rs, w')"
  obtains r w1 res rest where "g p w = (Inr r, w1)" and "load r w1 = Inr res"
    and "invoke_all gs p w1 = (Inr rest, w')" and "rs = res # rest"
  using assms
  by (auto simp: bindP_def get_def split: prod.splits sum.splits)

lemma invoke_all_length: "invoke_all gens p w = (Inr rs, w') \<Longrightarrow> length rs = length gens"
proof (induction gens arbitrary: w rs)
  case Nil
  then show ?case by auto
next
  case (Cons g gs)
  from Cons.prems obtain r w1 res rest where
    "invoke_all gs p w1 = (Inr rest, w')" and "rs = res # rest"
    by (rule invoke_all_Cons)
  with Cons.IH show ?case by simp
qed

lemma take_Suc_update: "i < length xs \<Longrightarrow> take (Suc i) (xs[i := v]) = take i xs @ [v]"
  by (simp add: take_Suc_conv_app_nth)

text \<open>The loop, when every generator from position \<open>i\<close> on succeeds.\<close>

lemma CombineGens_loop_success:
  assumes "invoke_all gens p w = (Inr rs, w')"
    and "list_all2 (\<lambda>res v. Retrieve res = Inr (v, True)) rs vs"
    and "i + length gens = length values"
    and "length shrinkers = length values" and "length sieves = length values"
  shows "CombineGens_loop i gens p labels values shrinkers sieves w =
           new \<lparr>Labels = labels @ concat (map Labels rs),
                Shrinker = Some (CombineShrinker (take i shrinkers @ map Shrinker rs)),
                ResultType = Some values_type, result = Values (take i values @ vs),
                Sieve = Some (CombineGens_sieve (take i sieves @ map Sieve rs))\<rparr> w'"
  using assms
proof (induction gens arbitrary: i labels "values" shrinkers sieves w rs vs)
  case Nil
  then show ?case by simp
next
  case (Cons g gs)
  from Cons.prems(1) obtain r w1 res rest where
    g: "g p w = (Inr r, w1)" and l: "load r w1 = Inr res"
    and rest: "invoke_all gs p w1 = (Inr rest, w')" and rs: "rs = res # rest"
    by (rule invoke_all_Cons)
  from Cons.prems(2) rs obtain v vs' where vs: "vs = v # vs'"
    and v: "Retrieve res = Inr (v, True)"
    and vs': "list_all2 (\<lambda>res v. Retrieve res = Inr (v, True)) rest vs'"
    by (auto simp: list_all2_Cons1)
  have i: "i < length values" "i < length shrinkers" "i < length sieves"
    using Cons.prems(3-5) by simp_all
  have "CombineGens_loop (Suc i) gs p (labels @ Labels res) (values[i := v])
          (shrinkers[i := Shrinker res]) (sieves[i := Sieve res]) w1 =
        new \<lparr>Labels = (labels @ Labels res) @ concat (map Labels rest),
             Shrinker = Some (CombineShrinker
               (take (Suc i) (shrinkers[i := Shrinker res]) @ map Shrinker rest)),
             ResultType = Some values_type,
             result = Values (take (Suc i) (values[i := v]) @ vs'),
             Sieve = Some (CombineGens_sieve
               (take (Suc i) (sieves[i := Sieve res]) @ map Sieve rest))\<rparr> w'"
    using rest vs' Cons.prems(3-5) by (intro Cons.IH) simp_all
  then show ?case
    using g l v i by (simp add: rs vs take_Suc_update)
qed

text \<open>The loop, when a generator fails after a run of generators that succeed.\<close>

lemma CombineGens_loop_failure:
  assumes "invoke_all pre p w = (Inr rs, w1)"
    and "\<forall>res \<in> set rs. \<exists>v. Retrieve res = Inr (v, True)"
    and "g p w1 = (Inr r, w2)" and "load r w2 = Inr res" and "Retrieve res = Inr (v, False)"
  shows "CombineGens_loop i (pre @ g # post) p labels values shrinkers sieves w =
           new \<lparr>Labels = Labels res, Shrinker = Some NoShrinker, ResultType = Some values_type,
                result = Nil, Sieve = None\<rparr> w2"
  using assms(1,2)
proof (induction pre arbitrary: i labels "values" shrinkers sieves w rs)
  case Nil
  then show ?case using assms(3-5) by simp
next
  case (Cons h hs)
  from Cons.prems(1) obtain r' w' res' rest where
    h: "h p w = (Inr r', w')" and l: "load r' w' = Inr res'"
    and rest: "invoke_all hs p w' = (Inr rest, w1)" and rs: "rs = res' # rest"
    by (rule invoke_all_Cons)
  from Cons.prems(2) rs obtain v' where v': "Retrieve res' = Inr (v', True)" by auto
  from Cons.prems(2) rs have "\<forall>res \<in> set rest. \<exists>v. Retrieve res = Inr (v, True)" by simp
  with rest have "CombineGens_loop (Suc i) (hs @ g # post) p (labels @ Labels res')
      (values[i := v']) (shrinkers[i := Shrinker res']) (sieves[i := Sieve res']) w' =
      new \<lparr>Labels = Labels res, Shrinker = Some NoShrinker, ResultType = Some values_type,
           result = Nil, Sieve = None\<rparr> w2"
    by (rule Cons.IH)
  then show ?case using h l v' by simp
qed

lemma all_less_Suc: "(\<forall>j < Suc n. P j) \<longleftrightarrow> P 0 \<and> (\<forall>j < n. P (Suc j))"
  by (auto simp: less_Suc_eq_0_disj)

lemma CombineGens_sieve_loop_True:
  "i + length xs \<le> length sieves \<Longrightarrow>
     CombineGens_sieve_loop i sieves xs = Inr True
       \<longleftrightarrow> (\<forall>j < length xs. accepts (sieves ! (i + j)) (xs ! j))"
proof (induction xs arbitrary: i)
  case Nil
  then show ?case by simp
next
  case (Cons x xs)
  then have IH: "CombineGens_sieve_loop (Suc i) sieves xs = Inr True
       \<longleftrightarrow> (\<forall>j < length xs. accepts (sieves ! (Suc i + j)) (xs ! j))"
    by simp
  from Cons.prems have "i < length sieves" by simp
  then show ?case
    by (auto simp: IH all_less_Suc accepts_def split: option.splits sum.splits)
qed

lemma CombineGens_run_success:
  assumes "invoke_all gens genParams w = (Inr rs, w')"
    and "list_all2 (\<lambda>res v. Retrieve res = Inr (v, True)) rs vs"
  shows "CombineGens gens genParams w =
           (Inr (length (results w')),
            w'\<lparr>results := results w' @
               [\<lparr>Labels = concat (map Labels rs),
                 Shrinker = Some (CombineShrinker (map Shrinker rs)),
                 ResultType = Some values_type, result = Values vs,
                 Sieve = Some (CombineGens_sieve (map Sieve rs))\<rparr>]\<rparr>)"
  using CombineGens_loop_success [OF assms, of 0 "replicate (length gens) Nil"
      "replicate (length gens) None" "replicate (length gens) None" "[]"]
  by (simp add: CombineGens_def new_def)

lemma CombineGens_run_failure:
  assumes "invoke_all pre genParams w = (Inr rs, w1)"
    and "\<forall>res \<in> set rs. \<exists>v. Retrieve res = Inr (v, True)"
    and "g genParams w1 = (Inr r, w2)" and "load r w2 = Inr res"
    and "Retrieve res = Inr (v, False)"
  shows "CombineGens (pre @ g # post) genParams w =
           (Inr (length (results w2)),
            w2\<lparr>results := results w2 @
               [\<lparr>Labels = Labels res, Shrinker = Some NoShrinker,
                 ResultType = Some values_type, result = Nil, Sieve = None\<rparr>]\<rparr>)"
  using CombineGens_loop_failure [where g = g and p = genParams and ?w1.0 = w1, OF assms]
  by (simp add: CombineGens_def new_def)

text \<open>
  C10: \<^verbatim>\<open>CombineGens\<close> of no generators does not fail. For every parameters object it
  returns a new result whose value is the empty sequence, with no labels and with a
  sieve that accepts the empty sequence, so that retrieving the value succeeds.
\<close>

theorem CombineGens_empty:
  "\<exists>res sieve.
     CombineGens [] genParams w = (Inr (length (results w)), w\<lparr>results := results w @ [res]\<rparr>)
     \<and> result res = Values [] \<and> Labels res = [] \<and> Sieve res = Some sieve
     \<and> sieve (Values []) = Inr True \<and> Retrieve res = Inr (Values [], True)"
proof -
  let ?res = "\<lparr>Labels = [], Shrinker = Some (CombineShrinker []),
               ResultType = Some values_type, result = Values [],
               Sieve = Some (CombineGens_sieve [])\<rparr>"
  show ?thesis
    by (intro exI [of _ ?res] exI [of _ "CombineGens_sieve []"])
       (simp add: CombineGens_def new_def CombineGens_sieve_def Retrieve_def)
qed

theorem CombineGens_empty_witness:
  "\<exists>res sieve.
     CombineGens [] 0 (empty_world :: nat world) = (Inr 0, empty_world\<lparr>results := [res]\<rparr>)
     \<and> result res = Values [] \<and> Labels res = [] \<and> Sieve res = Some sieve
     \<and> sieve (Values []) = Inr True \<and> Retrieve res = Inr (Values [], True)"
  using CombineGens_empty [of 0 "empty_world :: nat world"]
  by (simp add: empty_world_def)

text \<open>
  C5: when every generator of the list succeeds, \<^verbatim>\<open>CombineGens\<close> invokes them in list
  order with the same parameters object and returns a new result whose value is the
  sequence of their values, whose labels are their labels concatenated in that order,
  whose shrinker is \<^verbatim>\<open>CombineShrinker\<close> of their shrinkers, and whose sieve accepts a
  sequence of that length exactly when every sieve that is present accepts the value at
  its position.
\<close>

theorem CombineGens_success:
  assumes "invoke_all gens genParams w = (Inr rs, w')"
    and "list_all2 (\<lambda>res v. Retrieve res = Inr (v, True)) rs vs"
  shows "CombineGens gens genParams w =
           (Inr (length (results w')),
            w'\<lparr>results := results w' @
               [\<lparr>Labels = concat (map Labels rs),
                 Shrinker = Some (CombineShrinker (map Shrinker rs)),
                 ResultType = Some values_type, result = Values vs,
                 Sieve = Some (CombineGens_sieve (map Sieve rs))\<rparr>]\<rparr>)
     \<and> length rs = length gens \<and> length vs = length gens
     \<and> (\<forall>xs. length xs = length gens \<longrightarrow>
           (accepts (Some (CombineGens_sieve (map Sieve rs))) (Values xs)
              \<longleftrightarrow> (\<forall>i < length gens. accepts (Sieve (rs ! i)) (xs ! i))))"
proof -
  have n: "length rs = length gens"
    using assms(1) by (rule invoke_all_length)
  have m: "length vs = length gens"
    using assms(2) n by (simp add: list_all2_lengthD [symmetric])
  have s: "accepts (Some (CombineGens_sieve (map Sieve rs))) (Values xs)
      \<longleftrightarrow> (\<forall>i < length gens. accepts (Sieve (rs ! i)) (xs ! i))"
    if "length xs = length gens" for xs
  proof -
    have "CombineGens_sieve_loop 0 (map Sieve rs) xs = Inr True
        \<longleftrightarrow> (\<forall>j < length xs. accepts (map Sieve rs ! (0 + j)) (xs ! j))"
      using that n by (intro CombineGens_sieve_loop_True) simp
    then show ?thesis
      using that n by (simp add: accepts_def CombineGens_sieve_def)
  qed
  show ?thesis
    using CombineGens_run_success [OF assms] n m s by blast
qed

theorem CombineGens_success_witness:
  "CombineGens [const_gen (Atom 1) [''a''], const_gen (Atom 2) [''b'']] 0
       (empty_world :: nat world)
     = (Inr 2, empty_world\<lparr>results :=
          [\<lparr>Labels = [''a''], Shrinker = None, ResultType = Some int_type,
             result = Atom 1, Sieve = None\<rparr>,
           \<lparr>Labels = [''b''], Shrinker = None, ResultType = Some int_type,
             result = Atom 2, Sieve = None\<rparr>,
           \<lparr>Labels = [''a'', ''b''], Shrinker = Some (CombineShrinker [None, None]),
             ResultType = Some values_type, result = Values [Atom 1, Atom 2],
             Sieve = Some (CombineGens_sieve [None, None])\<rparr>]\<rparr>)
   \<and> accepts (Some (CombineGens_sieve [None, None])) (Values [Atom (7 :: nat), Atom 8])"
proof -
  let ?a = "\<lparr>Labels = [''a''], Shrinker = None, ResultType = Some int_type,
             result = Atom (1 :: nat), Sieve = None\<rparr>"
  let ?b = "\<lparr>Labels = [''b''], Shrinker = None, ResultType = Some int_type,
             result = Atom (2 :: nat), Sieve = None\<rparr>"
  have i: "invoke_all [const_gen (Atom 1) [''a''], const_gen (Atom 2) [''b'']] 0
       (empty_world :: nat world) = (Inr [?a, ?b], empty_world\<lparr>results := [?a, ?b]\<rparr>)"
    by (simp add: sample_defs run_defs)
  have v: "list_all2 (\<lambda>res v. Retrieve res = Inr (v, True)) [?a, ?b] [Atom 1, Atom 2]"
    by (simp add: Retrieve_def)
  from CombineGens_success [OF i v] show ?thesis
    by (simp add: empty_world_def accepts_def all_less_Suc numeral_2_eq_2)
qed

text \<open>
  C1, as stated, fails on the labels: for \<open>combine(gA, gB)\<close> where \<open>gA\<close> succeeds with
  1 and labels \<open>[a]\<close> and \<open>gB\<close> fails with labels \<open>[b]\<close>, the result (the object at
  address 2; 0 and 1 are the results of \<open>gA\<close> and \<open>gB\<close>) has the labels \<open>[b]\<close> of
  \<open>gB\<close> alone, not \<open>[a, b]\<close>.
\<close>

theorem CombineGens_labels_counterexample:
  "CombineGens [const_gen (Atom 1) [''a''], const_gen Nil [''b'']] 0 (empty_world :: nat world)
     = (Inr 2, empty_world\<lparr>results :=
          [\<lparr>Labels = [''a''], Shrinker = None, ResultType = Some int_type,
             result = Atom 1, Sieve = None\<rparr>,
           \<lparr>Labels = [''b''], Shrinker = None, ResultType = Some int_type,
             result = Nil, Sieve = None\<rparr>,
           \<lparr>Labels = [''b''], Shrinker = Some NoShrinker, ResultType = Some values_type,
             result = Nil, Sieve = None\<rparr>]\<rparr>)
   \<and> [''b''] \<noteq> [''a''] @ [''b'']"
  by (simp add: sample_defs run_defs CombineGens_def)

text \<open>
  C1, amended: if a generator of the list fails after the ones before it succeeded, the
  combination fails at once (the generators after it are not invoked): it returns a new
  result with no value and no partial aggregate, whose labels are the labels of the
  failing generator's result alone.
\<close>

theorem CombineGens_failure:
  assumes "invoke_all pre genParams w = (Inr rs, w1)"
    and "\<forall>res \<in> set rs. \<exists>v. Retrieve res = Inr (v, True)"
    and "g genParams w1 = (Inr r, w2)" and "load r w2 = Inr res"
    and "Retrieve res = Inr (v, False)"
  shows "CombineGens (pre @ g # post) genParams w =
           (Inr (length (results w2)),
            w2\<lparr>results := results w2 @
               [\<lparr>Labels = Labels res, Shrinker = Some NoShrinker,
                 ResultType = Some values_type, result = Nil, Sieve = None\<rparr>]\<rparr>)"
  using assms by (rule CombineGens_run_failure)

theorem CombineGens_failure_witness:
  "CombineGens ([const_gen (Atom 1) [''a'']] @ const_gen Nil [''b''] # [const_gen (Atom 3) [''c'']])
       0 (empty_world :: nat world)
     = (Inr 2, empty_world\<lparr>results :=
          [\<lparr>Labels = [''a''], Shrinker = None, ResultType = Some int_type,
             result = Atom 1, Sieve = None\<rparr>,
           \<lparr>Labels = [''b''], Shrinker = None, ResultType = Some int_type,
             result = Nil, Sieve = None\<rparr>,
           \<lparr>Labels = [''b''], Shrinker = Some NoShrinker, ResultType = Some values_type,
             result = Nil, Sieve = None\<rparr>]\<rparr>)"
proof -
  let ?a = "\<lparr>Labels = [''a''], Shrinker = None, ResultType = Some int_type,
             result = Atom (1 :: nat), Sieve = None\<rparr>"
  let ?b = "\<lparr>Labels = [''b''], Shrinker = None, ResultType = Some int_type,
             result = Nil :: nat val, Sieve = None\<rparr>"
  have i: "invoke_all [const_gen (Atom 1) [''a'']] 0 (empty_world :: nat world)
       = (Inr [?a], empty_world\<lparr>results := [?a]\<rparr>)"
    by (simp add: sample_defs run_defs)
  have s: "\<forall>res \<in> set [?a]. \<exists>v. Retrieve res = Inr (v, True)"
    by (simp add: Retrieve_def)
  have g: "const_gen Nil [''b''] 0 (empty_world\<lparr>results := [?a]\<rparr> :: nat world)
       = (Inr 1, empty_world\<lparr>results := [?a, ?b]\<rparr>)"
    by (simp add: sample_defs run_defs)
  have l: "load 1 (empty_world\<lparr>results := [?a, ?b]\<rparr> :: nat world) = Inr ?b"
    by (simp add: load_def)
  have f: "Retrieve ?b = Inr (Nil, False)"
    by (simp add: Retrieve_def)
  from CombineGens_failure [where pre = "[const_gen (Atom 1) [''a'']]"
      and g = "const_gen Nil [''b'']" and post = "[const_gen (Atom 3) [''c'']]"
      and genParams = 0, OF i s g l f]
  show ?thesis by (simp add: empty_world_def)
qed

subsection \<open>What a derived generator does to the store\<close>

text \<open>
  C2, as stated, fails for \<^verbatim>\<open>WithLabel\<close>: the base generator returns the object at
  address 0, with no labels; the derived generator returns that same address, not a new
  object, and has changed the labels of the object there to \<open>[a]\<close>.
\<close>

theorem WithLabel_in_place_counterexample:
  "const_gen (Atom 1) [] 0 (empty_world :: nat world)
     = (Inr 0, empty_world\<lparr>results :=
          [\<lparr>Labels = [], Shrinker = None, ResultType = Some int_type,
             result = Atom 1, Sieve = None\<rparr>]\<rparr>)
   \<and> WithLabel ''a'' (const_gen (Atom 1) []) 0 (empty_world :: nat world)
     = (Inr 0, empty_world\<lparr>results :=
          [\<lparr>Labels = [''a''], Shrinker = None, ResultType = Some int_type,
             result = Atom 1, Sieve = None\<rparr>]\<rparr>)"
  by (simp add: sample_defs run_defs WithLabel_def)

text \<open>
  C2, amended. Let the inner call return the object at address \<open>r\<close> and leave the store
  \<open>w1\<close>. The generators derived by \<^verbatim>\<open>WithLabel\<close>, \<^verbatim>\<open>SuchThat\<close> and
  \<^verbatim>\<open>WithShrinker\<close> return that same address and update the object there in place, in
  the one field \<^verbatim>\<open>Labels\<close>, \<^verbatim>\<open>Sieve\<close> or \<^verbatim>\<open>Shrinker\<close>. The generators derived by
  \<^verbatim>\<open>Map\<close>, by \<^verbatim>\<open>FlatMap\<close> when the inner generation fails, and by
  \<^verbatim>\<open>CombineGens\<close> return a new object, at an address that no object of the store had,
  and leave every object of the store as the inner call or calls left it; \<^verbatim>\<open>FlatMap\<close>
  returns what the continuation's generator returns when the inner generation succeeds.
  In each case the store after the call differs from the one the inner call or calls
  left in the result objects only: no parameters object and no random source is changed.
\<close>

theorem derived_generator_store:
  assumes "g genParams w = (Inr r, w1)" and "load r w1 = Inr res"
  shows "WithLabel label g genParams w =
           (Inr r, w1\<lparr>results := (results w1)[r := res\<lparr>Labels := Labels res @ [label]\<rparr>]\<rparr>)
     \<and> (\<forall>d wa wa'. SuchThat A f g wa = (Inr d, wa') \<longrightarrow>
           (\<exists>sieve. d genParams w =
              (Inr r, w1\<lparr>results := (results w1)[r := res\<lparr>Sieve := Some sieve\<rparr>]\<rparr>)))
     \<and> WithShrinker shrinker g genParams w =
           (Inr r, w1\<lparr>results := (results w1)[r := res\<lparr>Shrinker :=
              Some (case shrinker of None \<Rightarrow> NoShrinker | Some s \<Rightarrow> s)\<rparr>]\<rparr>)
     \<and> (\<forall>d wa wa' r' w'. Map A f g wa = (Inr d, wa') \<and> d genParams w = (Inr r', w') \<longrightarrow>
           r' = length (results w1) \<and> (\<exists>res'. w' = w1\<lparr>results := results w1 @ [res']\<rparr>))
     \<and> (\<forall>v. Retrieve res = Inr (v, True) \<longrightarrow> FlatMap k t g genParams w = k v genParams w1)
     \<and> (\<forall>v. Retrieve res = Inr (v, False) \<longrightarrow>
           (\<exists>res'. FlatMap k t g genParams w =
              (Inr (length (results w1)), w1\<lparr>results := results w1 @ [res']\<rparr>)))
     \<and> (\<forall>gens w0 rs vs wn.
           invoke_all gens genParams w0 = (Inr rs, wn)
           \<and> list_all2 (\<lambda>res v. Retrieve res = Inr (v, True)) rs vs \<longrightarrow>
           (\<exists>res'. CombineGens gens genParams w0 =
              (Inr (length (results wn)), wn\<lparr>results := results wn @ [res']\<rparr>)))
     \<and> (\<forall>pre post w0 rs wn v.
           invoke_all pre genParams w0 = (Inr rs, w)
           \<and> (\<forall>res \<in> set rs. \<exists>v. Retrieve res = Inr (v, True))
           \<and> Retrieve res = Inr (v, False) \<longrightarrow>
           (\<exists>res'. CombineGens (pre @ g # post) genParams w0 =
              (Inr (length (results w1)), w1\<lparr>results := results w1 @ [res']\<rparr>)))"
proof (intro conjI allI impI)
  show "WithLabel label g genParams w =
           (Inr r, w1\<lparr>results := (results w1)[r := res\<lparr>Labels := Labels res @ [label]\<rparr>]\<rparr>)"
    using assms by (rule WithLabel_result)
next
  fix d wa wa'
  assume "SuchThat A f g wa = (Inr d, wa')"
  from SuchThat_Inr [OF this] obtain cv where "d = SuchThat_gen (sieve_of cv) g" by blast
  then show "\<exists>sieve. d genParams w =
      (Inr r, w1\<lparr>results := (results w1)[r := res\<lparr>Sieve := Some sieve\<rparr>]\<rparr>)"
    using SuchThat_gen_result [where g = g and genParams = genParams and w = w, OF assms]
    by blast
next
  show "WithShrinker shrinker g genParams w =
           (Inr r, w1\<lparr>results := (results w1)[r := res\<lparr>Shrinker :=
              Some (case shrinker of None \<Rightarrow> NoShrinker | Some s \<Rightarrow> s)\<rparr>]\<rparr>)"
    using assms by (rule WithShrinker_result)
next
  fix d wa wa' r' w'
  assume a: "Map A f g wa = (Inr d, wa') \<and> d genParams w = (Inr r', w')"
  then have "Map A f g wa = (Inr d, wa')" by simp
  from Map_Inr [OF this] obtain mv where "d = Map_gen mv g" by blast
  with a have "Map_gen mv g genParams w = (Inr r', w')" by simp
  with assms(1) have "r' = length (results w1) \<and> (\<exists>res'. w' = w1\<lparr>results := results w1 @ [res']\<rparr>)"
    by (rule Map_gen_fresh)
  then show "r' = length (results w1)" and "\<exists>res'. w' = w1\<lparr>results := results w1 @ [res']\<rparr>"
    by simp_all
next
  fix v
  assume "Retrieve res = Inr (v, True)"
  with assms show "FlatMap k t g genParams w = k v genParams w1"
    by (simp add: FlatMap_def)
next
  fix v
  assume "Retrieve res = Inr (v, False)"
  with assms show "\<exists>res'. FlatMap k t g genParams w =
      (Inr (length (results w1)), w1\<lparr>results := results w1 @ [res']\<rparr>)"
    by (simp add: FlatMap_def new_def) (rule exI, rule refl)
next
  fix gens w0 rs vs wn
  assume "invoke_all gens genParams w0 = (Inr rs, wn)
           \<and> list_all2 (\<lambda>res v. Retrieve res = Inr (v, True)) rs vs"
  then have "invoke_all gens genParams w0 = (Inr rs, wn)"
    and "list_all2 (\<lambda>res v. Retrieve res = Inr (v, True)) rs vs"
    by simp_all
  from CombineGens_run_success [OF this]
  show "\<exists>res'. CombineGens gens genParams w0 =
      (Inr (length (results wn)), wn\<lparr>results := results wn @ [res']\<rparr>)"
    by (rule exI)
next
  fix pre post w0 rs wn v
  assume "invoke_all pre genParams w0 = (Inr rs, w)
           \<and> (\<forall>res \<in> set rs. \<exists>v. Retrieve res = Inr (v, True))
           \<and> Retrieve res = Inr (v, False)"
  then have "invoke_all pre genParams w0 = (Inr rs, w)"
    and "\<forall>res \<in> set rs. \<exists>v. Retrieve res = Inr (v, True)"
    and "Retrieve res = Inr (v, False)"
    by simp_all
  from CombineGens_run_failure [where g = g and genParams = genParams and post = post,
      OF this(1,2) assms this(3)]
  show "\<exists>res'. CombineGens (pre @ g # post) genParams w0 =
      (Inr (length (results w1)), w1\<lparr>results := results w1 @ [res']\<rparr>)"
    by (rule exI)
qed

theorem derived_generator_store_witness:
  "WithShrinker None (const_gen (Atom 1) [''x'']) 0 (empty_world :: nat world)
     = (Inr 0, empty_world\<lparr>results :=
          [\<lparr>Labels = [''x''], Shrinker = Some NoShrinker, ResultType = Some int_type,
             result = Atom 1, Sieve = None\<rparr>]\<rparr>)
   \<and> (\<exists>res'. CombineGens [const_gen (Atom 1) [''x'']] 0 (empty_world :: nat world)
     = (Inr 1, empty_world\<lparr>results :=
          [\<lparr>Labels = [''x''], Shrinker = None, ResultType = Some int_type,
             result = Atom 1, Sieve = None\<rparr>, res']\<rparr>))"
proof -
  let ?x = "\<lparr>Labels = [''x''], Shrinker = None, ResultType = Some int_type,
             result = Atom (1 :: nat), Sieve = None\<rparr>"
  have g: "const_gen (Atom 1) [''x''] 0 (empty_world :: nat world)
       = (Inr 0, empty_world\<lparr>results := [?x]\<rparr>)"
    by (simp add: sample_defs run_defs)
  have l: "load 0 (empty_world\<lparr>results := [?x]\<rparr> :: nat world) = Inr ?x"
    by (simp add: load_def)
  have v: "Retrieve ?x = Inr (Atom 1, True)"
    by (simp add: Retrieve_def)
  have i: "invoke_all [const_gen (Atom 1) [''x'']] 0 (empty_world :: nat world)
       = (Inr [?x], empty_world\<lparr>results := [?x]\<rparr>)"
    by (simp add: sample_defs run_defs)
  have a: "list_all2 (\<lambda>res v. Retrieve res = Inr (v, True)) [?x] [Atom 1]"
    using v by simp
  note T = derived_generator_store [where g = "const_gen (Atom 1) [''x'']" and genParams = 0
      and shrinker = None and label = "''l''" and A = "(=)" and f = "Some positive"
      and k = "\<lambda>v. const_gen v []" and t = None, OF g l]
  have s: "WithShrinker None (const_gen (Atom 1) [''x'']) 0 (empty_world :: nat world)
       = (Inr 0, empty_world\<lparr>results := [?x\<lparr>Shrinker := Some NoShrinker\<rparr>]\<rparr>)"
    using T [THEN conjunct2, THEN conjunct2, THEN conjunct1]
    by (simp add: empty_world_def)
  have c: "\<forall>gens w0 rs vs wn.
           invoke_all gens 0 w0 = (Inr rs, wn)
           \<and> list_all2 (\<lambda>res v. Retrieve res = Inr (v, True)) rs vs \<longrightarrow>
           (\<exists>res'. CombineGens gens 0 (w0 :: nat world) =
              (Inr (length (results wn)), wn\<lparr>results := results wn @ [res']\<rparr>))"
    using T [THEN conjunct2, THEN conjunct2, THEN conjunct2, THEN conjunct2, THEN conjunct2,
        THEN conjunct2, THEN conjunct1] .
  from c i a have "\<exists>res'. CombineGens [const_gen (Atom 1) [''x'']] 0 (empty_world :: nat world) =
      (Inr (length (results (empty_world\<lparr>results := [?x]\<rparr> :: nat world))),
       empty_world\<lparr>results := [?x]\<rparr>
         \<lparr>results := results (empty_world\<lparr>results := [?x]\<rparr> :: nat world) @ [res']\<rparr>)"
    by blast
  with s show ?thesis by (simp add: empty_world_def)
qed

end
